theory Spec2Isabelle
  imports Complex_Main "HOL-Library.Word" "HOL-Library.Code_Target_Numeral"
begin

section \<open>Strings\<close>

text \<open>
  A JavaScript string is a sequence of UTF-16 code units: \<open>length\<close>, \<open>substring\<close>,
  \<open>slice\<close>, \<open>startsWith\<close> and \<open>split\<close> all count and compare code units.
  A source literal made of ASCII characters is written \<open>S ''...''\<close>; a character
  outside the Basic Multilingual Plane is written as its surrogate pair.
\<close>

type_synonym code_unit = "16 word"
type_synonym jsstring = "code_unit list"

definition S :: "string \<Rightarrow> jsstring" where
  "S s = map of_char s"

text \<open>\<open>s.startsWith(p)\<close> and \<open>s.endsWith(p)\<close>.\<close>

definition startsWith :: "jsstring \<Rightarrow> jsstring \<Rightarrow> bool" where
  "startsWith s p = (take (length p) s = p)"

definition endsWith :: "jsstring \<Rightarrow> jsstring \<Rightarrow> bool" where
  "endsWith s p = (length p \<le> length s \<and> drop (length s - length p) s = p)"

text \<open>\<open>s.substring(0, n)\<close> for a constant \<open>n \<ge> 0\<close>.\<close>

definition substring0 :: "jsstring \<Rightarrow> nat \<Rightarrow> jsstring" where
  "substring0 s n = take n s"

text \<open>
  \<open>s.split(sep)\<close> for a separator of one code unit: the pieces between the
  occurrences of the separator, at least one piece.
\<close>

fun split :: "jsstring \<Rightarrow> code_unit \<Rightarrow> jsstring list" where
  "split [] sep = [[]]"
| "split (c # cs) sep =
     (if c = sep then [] # split cs sep
      else (case split cs sep of [] \<Rightarrow> [[c]] | h # t \<Rightarrow> (c # h) # t))"

text \<open>
  \<open>s.trim()\<close> removes the white space and line terminators of ECMAScript from both
  ends.
\<close>

definition is_ws :: "code_unit \<Rightarrow> bool" where
  "is_ws c = (c \<in> set [0x09, 0x0A, 0x0B, 0x0C, 0x0D, 0x20, 0xA0, 0x1680,
     0x2000, 0x2001, 0x2002, 0x2003, 0x2004, 0x2005, 0x2006, 0x2007, 0x2008, 0x2009, 0x200A,
     0x2028, 0x2029, 0x202F, 0x205F, 0x3000, 0xFEFF])"

definition trim :: "jsstring \<Rightarrow> jsstring" where
  "trim s = rev (dropWhile is_ws (rev (dropWhile is_ws s)))"

section \<open>The canonical feedback schema (domain/feedback.ts)\<close>

text \<open>
  A JavaScript number: a finite double by its value (the sign of zero is not kept), or
  one of the three non-finite values.
\<close>

datatype jsnumber = Finite real | NaN | PosInfinity | NegInfinity

record FeedbackConfidence =
  c_product_area :: "jsnumber option"
  c_sentiment :: "jsnumber option"
  c_urgency :: "jsnumber option"

text \<open>
  The union types \<open>FeedbackSource\<close>, \<open>ProductArea\<close>, \<open>Sentiment\<close> and \<open>Urgency\<close>
  are strings at run time, and the code casts to them without a check, so the record
  holds strings. An optional field is \<open>None\<close> when it is \<open>undefined\<close>.
\<close>

record Feedback =
  id' :: jsstring
  created_at :: jsstring
  source :: jsstring
  source_url :: "jsstring option"
  product_area :: jsstring
  title :: "jsstring option"
  author :: "jsstring option"
  thread_id :: "jsstring option"
  body_text :: jsstring
  sentiment :: jsstring
  urgency :: jsstring
  tags :: "jsstring list"
  confidence :: "FeedbackConfidence option"

section \<open>Object-store keys (storage/r2.ts)\<close>

text \<open>
  \<open>feedback.created_at.split('T')[0]\<close>: \<open>split\<close> never returns an empty array; the
  template literal would print \<open>undefined\<close> for a missing element.
\<close>

definition date_of :: "jsstring \<Rightarrow> jsstring" where
  "date_of ts = (case split ts (of_char CHR ''T'') of [] \<Rightarrow> S ''undefined'' | d # _ \<Rightarrow> d)"


section \<open>JavaScript values (ai/normalize.ts)\<close>

text \<open>
  The values \<open>JSON.parse\<close> returns, which are also the values the validator reads: an
  object is the list of its own properties (the first binding of a name is the
  property). \<open>undefined\<close> is not a JSON value: an operand that may be undefined is a
  \<open>json option\<close>.
\<close>

datatype json =
    JNull
  | JBool bool
  | JNum jsnumber
  | JStr jsstring
  | JArr "json list"
  | JObj "(jsstring \<times> json) list"

datatype error = TypeError | SyntaxError | Error jsstring

text \<open>
  The result of a search (ai/search.ts): \<open>raw\<close> is undefined or any value.
\<close>

record Citation =
  cit_text :: jsstring
  cit_source_url :: "jsstring option"

record SearchResult =
  answer :: jsstring
  citations :: "Citation list"
  raw :: "json option"

text \<open>
  What the code takes from its environment: \<open>crypto.randomUUID()\<close>,
  \<open>new Date().toISOString()\<close>, the decimal form \<open>Number::toString\<close> gives a finite
  number, \<open>JSON.parse\<close> (\<open>None\<close> when it throws a SyntaxError), and the result of
  \<open>queryAiSearch(env.AI, env.AI_SEARCH_NAME, query)\<close>, which catches every error of
  the search service and so always returns.
\<close>

record env =
  randomUUID :: jsstring
  now_toISOString :: jsstring
  finite_toString :: "real \<Rightarrow> jsstring"
  JSON_parse :: "jsstring \<Rightarrow> json option"
  queryAiSearch :: "json \<Rightarrow> SearchResult"

text \<open>
  The property read \<open>v.k\<close> on a value that is not null, for the names this program
  reads: none of them is inherited from a prototype, so the read is \<open>undefined\<close>
  unless \<open>v\<close> is an object with that property of its own.
\<close>

definition get :: "json \<Rightarrow> jsstring \<Rightarrow> json option" where
  "get v k = (case v of JObj kvs \<Rightarrow> map_of kvs k | _ \<Rightarrow> None)"

text \<open>Truthiness (\<open>ToBoolean\<close>), and the operator \<open>a || b\<close>.\<close>

fun truthy :: "json \<Rightarrow> bool" where
  "truthy JNull = False"
| "truthy (JBool b) = b"
| "truthy (JNum n) = (n \<noteq> Finite 0 \<and> n \<noteq> NaN)"
| "truthy (JStr s) = (s \<noteq> [])"
| "truthy (JArr xs) = True"
| "truthy (JObj kvs) = True"

definition or_else :: "json option \<Rightarrow> json option \<Rightarrow> json option" where
  "or_else a b = (case a of None \<Rightarrow> b | Some v \<Rightarrow> if truthy v then Some v else b)"

definition or_default :: "json option \<Rightarrow> json \<Rightarrow> json" where
  "or_default a b = (case a of None \<Rightarrow> b | Some v \<Rightarrow> if truthy v then v else b)"

text \<open>
  \<open>String(v)\<close>. A number prints in decimal. An array prints its elements joined by
  commas, null elements as the empty string. An object read from JSON has no callable
  property, so it prints \<open>[object Object]\<close> through the inherited \<open>toString\<close>, and
  the conversion throws a TypeError when the object has a property \<open>toString\<close> of its
  own (not callable, and the inherited \<open>valueOf\<close> returns the object).
\<close>

definition Number_toString :: "env \<Rightarrow> jsnumber \<Rightarrow> jsstring" where
  "Number_toString e n =
     (case n of
        Finite r \<Rightarrow> finite_toString e r
      | NaN \<Rightarrow> S ''NaN''
      | PosInfinity \<Rightarrow> S ''Infinity''
      | NegInfinity \<Rightarrow> S ''-Infinity'')"

fun join :: "(error + jsstring) list \<Rightarrow> error + jsstring" where
  "join [] = Inr []"
| "join [r] = r"
| "join (r # rs) =
     (case r of
        Inl err \<Rightarrow> Inl err
      | Inr s \<Rightarrow> (case join rs of Inl err \<Rightarrow> Inl err | Inr t \<Rightarrow> Inr (s @ S '','' @ t)))"

fun js_String :: "env \<Rightarrow> json \<Rightarrow> error + jsstring" where
  "js_String e JNull = Inr (S ''null'')"
| "js_String e (JBool b) = Inr (if b then S ''true'' else S ''false'')"
| "js_String e (JNum n) = Inr (Number_toString e n)"
| "js_String e (JStr s) = Inr s"
| "js_String e (JArr xs) =
     join (map (\<lambda>x. if x = JNull then Inr [] else js_String e x) xs)"
| "js_String e (JObj kvs) =
     (if S ''toString'' \<in> fst ` set kvs then Inl TypeError else Inr (S ''[object Object]''))"

text \<open>The closed sets of \<open>validateFeedback\<close>.\<close>

definition validSources :: "jsstring list" where
  "validSources = map S [''discord'', ''github'', ''support'', ''twitter'', ''email'']"

definition validProductAreas :: "jsstring list" where
  "validProductAreas =
     map S [''auth'', ''billing'', ''workers'', ''ai'', ''workers-ai'', ''d1'', ''r2'', ''other'']"

definition validSentiments :: "jsstring list" where
  "validSentiments = map S [''positive'', ''neutral'', ''negative'']"

definition validUrgencies :: "jsstring list" where
  "validUrgencies = map S [''low'', ''medium'', ''high'', ''p1'']"

text \<open>
  \<open>valid.includes(v) ? v : dflt\<close>: \<open>includes\<close> compares with SameValueZero, so only a
  string equal to a member is included.
\<close>

definition includes_or :: "jsstring list \<Rightarrow> json option \<Rightarrow> jsstring \<Rightarrow> jsstring" where
  "includes_or valid v dflt =
     (case v of Some (JStr s) \<Rightarrow> if s \<in> set valid then s else dflt | _ \<Rightarrow> dflt)"

text \<open>\<open>typeof v === 'string' ? v : undefined\<close>, and the same for numbers.\<close>

definition string_or_undefined :: "json option \<Rightarrow> jsstring option" where
  "string_or_undefined v = (case v of Some (JStr s) \<Rightarrow> Some s | _ \<Rightarrow> None)"

definition number_or_undefined :: "json option \<Rightarrow> jsnumber option" where
  "number_or_undefined v = (case v of Some (JNum n) \<Rightarrow> Some n | _ \<Rightarrow> None)"

text \<open>\<open>Array.isArray(v) ? v.filter((t) => typeof t === 'string') : []\<close>.\<close>

definition string_elements :: "json option \<Rightarrow> jsstring list" where
  "string_elements v =
     (case v of
        Some (JArr xs) \<Rightarrow> List.map_filter (\<lambda>t. case t of JStr s \<Rightarrow> Some s | _ \<Rightarrow> None) xs
      | _ \<Rightarrow> [])"

text \<open>
  \<open>typeof v === 'object' && v !== null\<close> holds of objects and arrays; the three
  sub-scores are then read from \<open>v\<close>.
\<close>

definition confidence_of :: "json option \<Rightarrow> FeedbackConfidence option" where
  "confidence_of v =
     (case v of
        Some (JObj kvs) \<Rightarrow>
          Some \<lparr>c_product_area = number_or_undefined (get (JObj kvs) (S ''product_area'')),
                c_sentiment = number_or_undefined (get (JObj kvs) (S ''sentiment'')),
                c_urgency = number_or_undefined (get (JObj kvs) (S ''urgency''))\<rparr>
      | Some (JArr xs) \<Rightarrow>
          Some \<lparr>c_product_area = number_or_undefined (get (JArr xs) (S ''product_area'')),
                c_sentiment = number_or_undefined (get (JArr xs) (S ''sentiment'')),
                c_urgency = number_or_undefined (get (JArr xs) (S ''urgency''))\<rparr>
      | _ \<Rightarrow> None)"

text \<open>
  \<open>data.body_text || data.content || data.body || data.text || ''\<close>, the operand of
  \<open>String\<close> for \<open>body_text\<close>.
\<close>

definition body_candidate :: "json \<Rightarrow> json" where
  "body_candidate data =
     or_default
       (or_else (or_else (or_else (get data (S ''body_text'')) (get data (S ''content'')))
          (get data (S ''body''))) (get data (S ''text'')))
       (JStr [])"

text \<open>
  \<open>validateFeedback(data)\<close>. Reading a property of null throws a TypeError, and so
  does a \<open>String\<close> conversion that fails.
\<close>

definition validateFeedback :: "env \<Rightarrow> json \<Rightarrow> error + Feedback" where
  "validateFeedback e data =
     (if data = JNull then Inl TypeError
      else case js_String e (or_default (get data (S ''id'')) (JStr (randomUUID e))) of
        Inl err \<Rightarrow> Inl err
      | Inr the_id \<Rightarrow>
      (case js_String e (or_default (get data (S ''created_at'')) (JStr (now_toISOString e))) of
        Inl err \<Rightarrow> Inl err
      | Inr the_created_at \<Rightarrow>
      (case js_String e (body_candidate data) of
        Inl err \<Rightarrow> Inl err
      | Inr the_body_text \<Rightarrow>
          Inr \<lparr>id' = the_id,
               created_at = the_created_at,
               source = includes_or validSources (get data (S ''source'')) (S ''email''),
               source_url = string_or_undefined (get data (S ''source_url'')),
               product_area =
                 includes_or validProductAreas (get data (S ''product_area'')) (S ''other''),
               title = string_or_undefined (get data (S ''title'')),
               author = string_or_undefined (get data (S ''author'')),
               thread_id = string_or_undefined (get data (S ''thread_id'')),
               body_text = the_body_text,
               sentiment = includes_or validSentiments (get data (S ''sentiment'')) (S ''neutral''),
               urgency = includes_or validUrgencies (get data (S ''urgency'')) (S ''medium''),
               tags = string_elements (get data (S ''tags'')),
               confidence = confidence_of (get data (S ''confidence''))\<rparr>)))"

text \<open>
  A value is primitive when it is undefined, null, a boolean, a number or a string: its
  \<open>String\<close> conversion cannot fail.
\<close>

definition primitive :: "json option \<Rightarrow> bool" where
  "primitive v = (case v of Some (JArr xs) \<Rightarrow> False | Some (JObj kvs) \<Rightarrow> False | _ \<Rightarrow> True)"

definition string_or_absent :: "json option \<Rightarrow> bool" where
  "string_or_absent v = (case v of None \<Rightarrow> True | Some (JStr s) \<Rightarrow> True | _ \<Rightarrow> False)"

text \<open>
  An environment to evaluate the model in: the parser knows three texts, which is all
  the evaluations below need.
\<close>

definition sample_env :: env where
  "sample_env =
     \<lparr>randomUUID = S ''3b241101-e2bb-4255-8caf-4136c566a962'',
      now_toISOString = S ''2026-01-09T17:46:00.000Z'',
      finite_toString = (\<lambda>r. if r = 1 then S ''1'' else S ''0''),
      JSON_parse = (\<lambda>t. if t = S ''{}'' then Some (JObj [])
                          else if t = S ''null'' then Some JNull
                          else if t = S ''{\"source\":\"github\"}''
                            then Some (JObj [(S ''source'', JStr (S ''github''))])
                          else None),
      queryAiSearch = (\<lambda>q. \<lparr>answer = S ''Customers report slow D1 queries.'',
                             citations = [\<lparr>cit_text = S ''D1 queries are slow'',
                                           cit_source_url = None\<rparr>],
                             raw = None\<rparr>)\<rparr>"

text \<open>
  The candidate fields of \<open>body_text\<close> in their order, and the first non-empty string
  of a list (the empty string when there is none).
\<close>

definition body_fields :: "jsstring list" where
  "body_fields = map S [''body_text'', ''content'', ''body'', ''text'']"

definition first_non_empty :: "jsstring list \<Rightarrow> jsstring" where
  "first_non_empty xs = (case filter (\<lambda>s. s \<noteq> []) xs of [] \<Rightarrow> [] | s # _ \<Rightarrow> s)"

text \<open>
  The first truthy value of a list of operands (the empty string when there is none).
\<close>

definition first_truthy :: "json option list \<Rightarrow> json" where
  "first_truthy vs =
     (case List.find truthy (List.map_filter (\<lambda>v. v) vs) of None \<Rightarrow> JStr [] | Some v \<Rightarrow> v)"

section \<open>The canonicalization engine (ai/normalize.ts)\<close>

text \<open>
  The fence stripping of \<open>normalizeFeedback\<close>: \<open>slice(7)\<close> and \<open>slice(3)\<close> drop a
  leading marker, \<open>slice(0, -3)\<close> drops a trailing one.
\<close>

definition stripFence :: "jsstring \<Rightarrow> jsstring" where
  "stripFence responseText =
     (let jsonStr = trim responseText;
          jsonStr = (if startsWith jsonStr (S ''```json'') then drop 7 jsonStr
                     else if startsWith jsonStr (S ''```'') then drop 3 jsonStr
                     else jsonStr);
          jsonStr = (if endsWith jsonStr (S ''```'') then take (length jsonStr - 3) jsonStr
                     else jsonStr)
      in trim jsonStr)"

text \<open>
  \<open>normalizeFeedback\<close> after the call of the model: \<open>response\<close> is what \<open>ai.run\<close>
  returned. Anything but an object with a property \<open>response\<close> is refused; a
  \<open>response\<close> that is not a string has no method \<open>trim\<close> (a TypeError); \<open>JSON.parse\<close>
  throws a SyntaxError on a text it cannot parse, and nothing catches it.
\<close>

definition normalizeFeedback :: "env \<Rightarrow> json \<Rightarrow> error + Feedback" where
  "normalizeFeedback e response =
     (case response of
        JObj kvs \<Rightarrow>
          (if S ''response'' \<in> fst ` set kvs
           then (case map_of kvs (S ''response'') of
                   Some (JStr responseText) \<Rightarrow>
                     (case JSON_parse e (stripFence responseText) of
                        None \<Rightarrow> Inl SyntaxError
                      | Some parsed \<Rightarrow> validateFeedback e parsed)
                 | _ \<Rightarrow> Inl TypeError)
           else Inl (Error (S ''Unexpected AI response format'')))
      | _ \<Rightarrow> Inl (Error (S ''Unexpected AI response format'')))"

text \<open>A fenced block: the marker, a language tag, the inner text on lines of its own.\<close>

definition fenced :: "jsstring \<Rightarrow> jsstring \<Rightarrow> jsstring" where
  "fenced tag inner = S ''```'' @ tag @ [0x0A] @ inner @ [0x0A] @ S ''```''"

text \<open>What is left of a language tag once a leading \<open>json\<close> is taken off.\<close>

definition tag_rest :: "jsstring \<Rightarrow> jsstring" where
  "tag_rest tag = (if startsWith tag (S ''json'') then drop 4 tag else tag)"

section \<open>Rows of the relational store (domain/feedback.ts)\<close>

text \<open>
  The columns \<open>tags_json\<close> and \<open>confidence_json\<close> hold text that \<open>JSON.stringify\<close> wrote
  and \<open>JSON.parse\<close> reads. The model keeps the JSON document such a text denotes:
  \<open>JSON.stringify\<close> writes a number that is not finite as \<open>null\<close> and writes every
  other value of the kinds below as itself, \<open>JSON.parse\<close> returns the value of the
  document, and the text of a document is never the empty string, so a column that is
  not null is truthy.
\<close>

datatype json_text = JsonText json

fun JSON_document :: "json \<Rightarrow> json" where
  "JSON_document JNull = JNull"
| "JSON_document (JBool b) = JBool b"
| "JSON_document (JNum n) = (case n of Finite r \<Rightarrow> JNum (Finite r) | _ \<Rightarrow> JNull)"
| "JSON_document (JStr s) = JStr s"
| "JSON_document (JArr xs) = JArr (map JSON_document xs)"
| "JSON_document (JObj kvs) = JObj (map (\<lambda>(k, v). (k, JSON_document v)) kvs)"

definition JSON_stringify :: "json \<Rightarrow> json_text" where
  "JSON_stringify v = JsonText (JSON_document v)"

fun JSON_parse_text :: "json_text \<Rightarrow> json" where
  "JSON_parse_text (JsonText d) = d"

text \<open>
  The value of \<open>feedback.tags\<close>, and of \<open>feedback.confidence\<close> as \<open>JSON.stringify\<close>
  sees it: a property whose value is undefined is not written.
\<close>

definition tags_value :: "jsstring list \<Rightarrow> json" where
  "tags_value ts = JArr (map JStr ts)"

definition confidence_value :: "FeedbackConfidence \<Rightarrow> json" where
  "confidence_value c =
     JObj (List.map_filter (\<lambda>(k, v). case v of None \<Rightarrow> None | Some n \<Rightarrow> Some (k, JNum n))
       [(S ''product_area'', c_product_area c),
        (S ''sentiment'', c_sentiment c),
        (S ''urgency'', c_urgency c)])"

record FeedbackRow =
  row_id :: jsstring
  row_created_at :: jsstring
  row_source :: jsstring
  row_source_url :: "jsstring option"
  row_product_area :: jsstring
  row_title :: "jsstring option"
  row_author :: "jsstring option"
  row_thread_id :: "jsstring option"
  row_body_text :: jsstring
  row_sentiment :: jsstring
  row_urgency :: jsstring
  row_tags_json :: "json_text option"
  row_confidence_json :: "json_text option"
  row_r2_key :: jsstring

definition feedbackToRow :: "Feedback \<Rightarrow> jsstring \<Rightarrow> FeedbackRow" where
  "feedbackToRow feedback r2Key =
     \<lparr>row_id = id' feedback,
      row_created_at = created_at feedback,
      row_source = source feedback,
      row_source_url = source_url feedback,
      row_product_area = product_area feedback,
      row_title = title feedback,
      row_author = author feedback,
      row_thread_id = thread_id feedback,
      row_body_text = body_text feedback,
      row_sentiment = sentiment feedback,
      row_urgency = urgency feedback,
      row_tags_json =
        (if length (tags feedback) > 0 then Some (JSON_stringify (tags_value (tags feedback)))
         else None),
      row_confidence_json =
        (case confidence feedback of
           Some c \<Rightarrow> Some (JSON_stringify (confidence_value c))
         | None \<Rightarrow> None),
      row_r2_key = r2Key\<rparr>"

text \<open>
  \<open>rowToFeedback\<close> casts what \<open>JSON.parse\<close> returns without a check, so \<open>tags\<close> and
  \<open>confidence\<close> of its result are the parsed values.
\<close>

record FeedbackOfRow =
  of_row_id :: jsstring
  of_row_created_at :: jsstring
  of_row_source :: jsstring
  of_row_source_url :: "jsstring option"
  of_row_product_area :: jsstring
  of_row_title :: "jsstring option"
  of_row_author :: "jsstring option"
  of_row_thread_id :: "jsstring option"
  of_row_body_text :: jsstring
  of_row_sentiment :: jsstring
  of_row_urgency :: jsstring
  of_row_tags :: json
  of_row_confidence :: "json option"
  of_row_r2_key :: jsstring

definition rowToFeedback :: "FeedbackRow \<Rightarrow> FeedbackOfRow" where
  "rowToFeedback row =
     \<lparr>of_row_id = row_id row,
      of_row_created_at = row_created_at row,
      of_row_source = row_source row,
      of_row_source_url = row_source_url row,
      of_row_product_area = row_product_area row,
      of_row_title = row_title row,
      of_row_author = row_author row,
      of_row_thread_id = row_thread_id row,
      of_row_body_text = row_body_text row,
      of_row_sentiment = row_sentiment row,
      of_row_urgency = row_urgency row,
      of_row_tags =
        (case row_tags_json row of Some t \<Rightarrow> JSON_parse_text t | None \<Rightarrow> JArr []),
      of_row_confidence =
        (case row_confidence_json row of Some t \<Rightarrow> Some (JSON_parse_text t) | None \<Rightarrow> None),
      of_row_r2_key = row_r2_key row\<rparr>"

text \<open>The sub-scores of a confidence that are present are finite numbers.\<close>

definition is_finite :: "jsnumber option \<Rightarrow> bool" where
  "is_finite n = (case n of Some NaN \<Rightarrow> False | Some PosInfinity \<Rightarrow> False
                  | Some NegInfinity \<Rightarrow> False | _ \<Rightarrow> True)"

definition finite_confidence :: "FeedbackConfidence option \<Rightarrow> bool" where
  "finite_confidence c =
     (case c of
        None \<Rightarrow> True
      | Some x \<Rightarrow> is_finite (c_product_area x) \<and> is_finite (c_sentiment x) \<and> is_finite (c_urgency x))"

definition sample_feedback :: Feedback where
  "sample_feedback =
     \<lparr>id' = S ''abc'', created_at = S ''2026-01-09T17:46:00Z'', source = S ''discord'',
      source_url = None, product_area = S ''d1'', title = None, author = None,
      thread_id = None, body_text = S ''D1 queries are slow'', sentiment = S ''negative'',
      urgency = S ''high'', tags = [S ''bug'', S ''performance''],
      confidence = Some \<lparr>c_product_area = Some (Finite (9 / 10)), c_sentiment = None,
                          c_urgency = Some (Finite (1 / 2))\<rparr>\<rparr>"

section \<open>Renderings for the chat platform (ai/search.ts, index.ts)\<close>

text \<open>
  The decimal form of a count, as a template literal prints it (counts stay far below
  the size where JavaScript switches to exponent notation).
\<close>

fun showNat :: "nat \<Rightarrow> jsstring" where
  "showNat n =
     (if n < 10 then [of_nat (48 + n)] else showNat (n div 10) @ [of_nat (48 + n mod 10)])"

declare showNat.simps [simp del]

text \<open>
  The truncation both renderings end with:
  \<open>if (content.length > 1900) content = content.substring(0, 1897) + '...'\<close>.
\<close>

definition truncateForDiscord :: "jsstring \<Rightarrow> jsstring" where
  "truncateForDiscord content =
     (if length content > 1900 then substring0 content 1897 @ S ''...'' else content)"

text \<open>
  \<open>summarizeForDiscord\<close>: the answer, then the first three citations, each numbered by
  its position and skipped when its text is empty.
\<close>

fun citation_lines :: "nat \<Rightarrow> Citation list \<Rightarrow> jsstring" where
  "citation_lines i [] = []"
| "citation_lines i (c # cs) =
     (if cit_text c \<noteq> []
      then [0x0A] @ showNat (i + 1) @ S ''. '' @ substring0 (cit_text c) 100 @ S ''...''
      else [])
     @ citation_lines (i + 1) cs"

definition summary_content :: "SearchResult \<Rightarrow> jsstring" where
  "summary_content searchResult =
     (if length (citations searchResult) > 0
      then answer searchResult @ [0x0A, 0x0A] @ S ''**Sources:**''
             @ citation_lines 0 (take 3 (citations searchResult))
      else answer searchResult)"

definition summarizeForDiscord :: "SearchResult \<Rightarrow> jsstring" where
  "summarizeForDiscord searchResult = truncateForDiscord (summary_content searchResult)"

text \<open>
  The aggregates the digest reads from the relational store: the rows of
  \<open>getDailyStats\<close>, the count of \<open>getFeedbackCount\<close> and the rows of
  \<open>getHighUrgencySample\<close>.
\<close>

record DailyStat =
  stat_source :: jsstring
  stat_product_area :: jsstring
  stat_sentiment :: jsstring
  stat_count :: nat

record UrgentItem =
  item_body_text :: jsstring
  item_source_url :: "jsstring option"

text \<open>
  \<open>grouped\<close>, a plain object keyed by source. A source that names a property every
  object inherits (\<open>constructor\<close>, \<open>toString\<close>, ...) reads as that inherited value,
  which is truthy: nothing is stored under it, and the count is added to a property of
  the inherited value. Any other source gets an entry of its own when it is first seen.
\<close>

definition inherited_names :: "jsstring list" where
  "inherited_names =
     map S [''constructor'', ''__defineGetter__'', ''__defineSetter__'', ''hasOwnProperty'',
            ''__lookupGetter__'', ''__lookupSetter__'', ''isPrototypeOf'',
            ''propertyIsEnumerable'', ''toString'', ''valueOf'', ''__proto__'',
            ''toLocaleString'']"

definition add_stat ::
  "(jsstring \<times> nat \<times> nat \<times> nat) list \<Rightarrow> DailyStat \<Rightarrow> (jsstring \<times> nat \<times> nat \<times> nat) list" where
  "add_stat grouped stat =
     (if stat_source stat \<in> set inherited_names then grouped
      else
        map (\<lambda>(src, pos, neu, neg).
               if src = stat_source stat
               then (if stat_sentiment stat = S ''positive''
                       then (src, pos + stat_count stat, neu, neg)
                     else if stat_sentiment stat = S ''negative''
                       then (src, pos, neu, neg + stat_count stat)
                     else (src, pos, neu + stat_count stat, neg))
               else (src, pos, neu, neg))
          (if stat_source stat \<in> fst ` set grouped then grouped
           else grouped @ [(stat_source stat, 0, 0, 0)]))"

text \<open>
  \<open>Object.entries(grouped)\<close>: the names that are array indices (a decimal numeral
  without a leading zero, below \<open>2^32 - 1\<close>) come first, in ascending numeric order;
  the other names follow in the order of their creation.
\<close>

definition decimal_value :: "jsstring \<Rightarrow> nat" where
  "decimal_value s = foldl (\<lambda>n c. 10 * n + (unat c - 48)) 0 s"

definition array_index :: "jsstring \<Rightarrow> nat option" where
  "array_index s =
     (case s of
        [] \<Rightarrow> None
      | c # cs \<Rightarrow>
          if list_all (\<lambda>d. 0x30 \<le> d \<and> d \<le> 0x39) (c # cs)
             \<and> (if c = 0x30 then cs = [] else True)
             \<and> decimal_value (c # cs) < 4294967295
          then Some (decimal_value (c # cs))
          else None)"

definition Object_entries ::
  "(jsstring \<times> nat \<times> nat \<times> nat) list \<Rightarrow> (jsstring \<times> nat \<times> nat \<times> nat) list" where
  "Object_entries grouped =
     sort_key (\<lambda>entry. case array_index (fst entry) of Some i \<Rightarrow> i | None \<Rightarrow> 0)
       (filter (\<lambda>entry. array_index (fst entry) \<noteq> None) grouped)
     @ filter (\<lambda>entry. array_index (fst entry) = None) grouped"

definition breakdown_line :: "jsstring \<times> nat \<times> nat \<times> nat \<Rightarrow> jsstring" where
  "breakdown_line entry =
     (case entry of (src, pos, neu, neg) \<Rightarrow>
        [0x2022] @ S '' '' @ src @ S '': '' @ [0xD83D, 0xDC4D] @ showNat pos @ S '' ''
          @ [0xD83D, 0xDE10] @ showNat neu @ S '' '' @ [0xD83D, 0xDC4E] @ showNat neg @ [0x0A])"

definition urgent_line :: "UrgentItem \<Rightarrow> jsstring" where
  "urgent_line item =
     [0x2022] @ S '' '' @ [0x22] @ substring0 (item_body_text item) 100 @ S ''...'' @ [0x22, 0x0A]"

definition digest_header :: "jsstring \<Rightarrow> jsstring" where
  "digest_header date =
     S ''**'' @ [0xD83D, 0xDCCA] @ S '' Feedback Digest for '' @ date @ S ''**'' @ [0x0A, 0x0A]"

text \<open>The composition of the digest, run when the count is positive.\<close>

definition digest_composition ::
  "nat \<Rightarrow> DailyStat list \<Rightarrow> UrgentItem list \<Rightarrow> SearchResult \<Rightarrow> jsstring" where
  "digest_composition totalCount stats highUrgency searchResult =
     S ''**Total feedback:** '' @ showNat totalCount @ [0x0A, 0x0A]
     @ (if length stats > 0
        then S ''**Breakdown by source & sentiment:**'' @ [0x0A]
               @ concat (map breakdown_line (Object_entries (foldl add_stat [] stats)))
               @ [0x0A]
        else [])
     @ S ''**Key Themes:**'' @ [0x0A] @ substring0 (answer searchResult) 800
     @ (if length highUrgency > 0
        then [0x0A, 0x0A] @ S ''**'' @ [0xD83D, 0xDD34] @ S '' High-Urgency Items:**'' @ [0x0A]
               @ concat (map urgent_line highUrgency)
        else [])"

definition digest_untruncated ::
  "jsstring \<Rightarrow> nat \<Rightarrow> DailyStat list \<Rightarrow> UrgentItem list \<Rightarrow> SearchResult \<Rightarrow> jsstring" where
  "digest_untruncated date totalCount stats highUrgency searchResult =
     digest_header date
     @ (if totalCount > 0 then digest_composition totalCount stats highUrgency searchResult
        else S ''No feedback recorded for this date.'')"

definition digestContent ::
  "jsstring \<Rightarrow> nat \<Rightarrow> DailyStat list \<Rightarrow> UrgentItem list \<Rightarrow> SearchResult \<Rightarrow> jsstring" where
  "digestContent date totalCount stats highUrgency searchResult =
     truncateForDiscord (digest_untruncated date totalCount stats highUrgency searchResult)"

section \<open>Interactions of the chat platform (discord/types.ts)\<close>

text \<open>
  The fields of an interaction that the handlers read. The value of an option is a
  string, a number or a boolean when the platform sends it; the handler converts
  whatever it finds with \<open>String\<close>.
\<close>

record InteractionDataOption =
  opt_name :: jsstring
  opt_type :: nat
  opt_value :: "json option"

record InteractionData =
  data_id :: jsstring
  data_name :: jsstring
  data_options :: "InteractionDataOption list option"

record DiscordInteraction =
  interaction_id :: jsstring
  interaction_type :: nat
  application_id :: jsstring
  interaction_data :: "InteractionData option"
  interaction_token :: jsstring

record ResponseData =
  data_content :: "jsstring option"
  data_flags :: "nat option"

record InteractionResponse =
  response_type :: nat
  response_data :: "ResponseData option"

definition createPongResponse :: InteractionResponse where
  "createPongResponse = \<lparr>response_type = 1, response_data = None\<rparr>"

definition createEphemeralResponse :: "jsstring \<Rightarrow> InteractionResponse" where
  "createEphemeralResponse c =
     \<lparr>response_type = 4, response_data = Some \<lparr>data_content = Some c, data_flags = Some 64\<rparr>\<rparr>"

definition createDeferredResponse :: InteractionResponse where
  "createDeferredResponse = \<lparr>response_type = 5, response_data = None\<rparr>"

text \<open>
  \<open>interaction.data?.options?.find((o) => o.name === name)\<close>, then
  \<open>option?.value !== undefined ? String(option.value) : undefined\<close>.
\<close>

definition options_of :: "DiscordInteraction \<Rightarrow> InteractionDataOption list" where
  "options_of interaction =
     (case interaction_data interaction of
        None \<Rightarrow> []
      | Some d \<Rightarrow> (case data_options d of None \<Rightarrow> [] | Some os \<Rightarrow> os))"

definition getStringOption ::
  "env \<Rightarrow> DiscordInteraction \<Rightarrow> jsstring \<Rightarrow> error + jsstring option" where
  "getStringOption e interaction name =
     (case List.find (\<lambda>opt. opt_name opt = name) (options_of interaction) of
        None \<Rightarrow> Inr None
      | Some opt \<Rightarrow>
          (case opt_value opt of
             None \<Rightarrow> Inr None
           | Some v \<Rightarrow> (case js_String e v of Inl err \<Rightarrow> Inl err | Inr s \<Rightarrow> Inr (Some s))))"

section \<open>The handlers (index.ts)\<close>

text \<open>
  The execution context is the list of the background continuations registered with
  \<open>ctx.waitUntil\<close>. A continuation is named by what it closes over: the application
  id and token it will edit the response with, and the query or the date.
\<close>

datatype task =
    AskTask jsstring jsstring jsstring
  | DigestTask jsstring jsstring jsstring

text \<open>\<open>handleAskCommand\<close>: the response of the handler and the context it leaves.\<close>

definition handleAskCommand ::
  "env \<Rightarrow> DiscordInteraction \<Rightarrow> task list \<Rightarrow> error + (InteractionResponse \<times> task list)" where
  "handleAskCommand e interaction ctx =
     (case getStringOption e interaction (S ''query'') of
        Inl err \<Rightarrow> Inl err
      | Inr query \<Rightarrow>
          (if query = None \<or> query = Some []
           then Inr (createEphemeralResponse (S ''Please provide a query using the `query` option.''),
                     ctx)
           else Inr (createDeferredResponse,
                     ctx @ [AskTask (application_id interaction) (interaction_token interaction)
                              (case query of Some q \<Rightarrow> q | None \<Rightarrow> [])])))"

text \<open>
  \<open>handleDigestCommand\<close>: the date is the option, or today when the option is missing
  or empty.
\<close>

definition handleDigestCommand ::
  "env \<Rightarrow> DiscordInteraction \<Rightarrow> task list \<Rightarrow> error + (InteractionResponse \<times> task list)" where
  "handleDigestCommand e interaction ctx =
     (case getStringOption e interaction (S ''date'') of
        Inl err \<Rightarrow> Inl err
      | Inr dateOption \<Rightarrow>
          Inr (createDeferredResponse,
               ctx @ [DigestTask (application_id interaction) (interaction_token interaction)
                        (case dateOption of
                           Some d \<Rightarrow> if d \<noteq> [] then d else date_of (now_toISOString e)
                         | None \<Rightarrow> date_of (now_toISOString e))]))"

text \<open>
  What a continuation sends to \<open>editOriginalResponse\<close>. The ask continuation searches
  and renders. The digest continuation reads the aggregates, and an error of the store
  (\<open>Inl\<close>) is caught and answered with the fixed message.
\<close>

definition ask_task_content :: "env \<Rightarrow> jsstring \<Rightarrow> jsstring" where
  "ask_task_content e query = summarizeForDiscord (queryAiSearch e (JStr query))"

definition digest_task_content ::
  "jsstring \<Rightarrow> error + (DailyStat list \<times> nat \<times> UrgentItem list) \<Rightarrow> SearchResult \<Rightarrow> jsstring" where
  "digest_task_content date aggregates searchResult =
     (case aggregates of
        Inl err \<Rightarrow> S ''Sorry, I encountered an error generating the digest. Please try again.''
      | Inr (stats, totalCount, highUrgency) \<Rightarrow>
          digestContent date totalCount stats highUrgency searchResult)"

text \<open>
  \<open>handleAsk\<close>, the HTTP route \<open>POST /ask\<close>, on the parsed body of the request. An
  undefined property is left out of the JSON that \<open>Response.json\<close> writes.
\<close>

record HttpResponse =
  http_status :: nat
  http_body :: json

definition citation_json :: "Citation \<Rightarrow> json" where
  "citation_json c =
     JObj ([(S ''text'', JStr (cit_text c))]
           @ (case cit_source_url c of None \<Rightarrow> [] | Some u \<Rightarrow> [(S ''source_url'', JStr u)]))"

definition handleAsk :: "env \<Rightarrow> json \<Rightarrow> error + HttpResponse" where
  "handleAsk e body =
     (if body = JNull then Inl TypeError
      else (case get body (S ''query'') of
              None \<Rightarrow>
                Inr \<lparr>http_status = 400,
                     http_body = JObj [(S ''error'', JStr (S ''Missing required field: query''))]\<rparr>
            | Some query \<Rightarrow>
                if \<not> truthy query
                then Inr \<lparr>http_status = 400,
                          http_body = JObj [(S ''error'', JStr (S ''Missing required field: query''))]\<rparr>
                else Inr \<lparr>http_status = 200,
                          http_body =
                            JObj [(S ''query'', JSON_document query),
                                  (S ''answer'', JStr (summarizeForDiscord (queryAiSearch e query))),
                                  (S ''citations'',
                                     JArr (map citation_json (citations (queryAiSearch e query)))),
                                  (S ''debug'',
                                     JObj (case raw (queryAiSearch e query) of
                                             None \<Rightarrow> []
                                           | Some r \<Rightarrow> [(S ''raw_response'', JSON_document r)]))]\<rparr>))"

definition sample_interaction :: "InteractionDataOption list \<Rightarrow> DiscordInteraction" where
  "sample_interaction os =
     \<lparr>interaction_id = S ''test-interaction-id'', interaction_type = 2,
      application_id = S ''test-app-id'',
      interaction_data = Some \<lparr>data_id = S ''cmd-id'', data_name = S ''ask'',
                                data_options = Some os\<rparr>,
      interaction_token = S ''test-token''\<rparr>"

section \<open>Properties of the string operations\<close>

lemma unat_of_char: "unat (of_char e :: 16 word) = (of_char e :: nat)"
proof -
  have "(of_char e :: 16 word) = of_nat (of_char e)"
    by (simp add: of_nat_of_char)
  moreover have "(of_char e :: nat) < 256"
    by (metis of_char_mod_256 mod_less_divisor zero_less_numeral)
  then have "(of_char e :: nat) < 65536"
    by linarith
  ultimately show ?thesis
    by (simp add: unat_of_nat)
qed

lemma of_char_word_inj: "(of_char c :: 16 word) = of_char d \<longleftrightarrow> c = d"
proof
  assume "(of_char c :: 16 word) = of_char d"
  then have "(of_char c :: nat) = of_char d"
    using unat_of_char by metis
  then show "c = d" by simp
qed simp

lemma S_eq_iff: "S a = S b \<longleftrightarrow> a = b"
  unfolding S_def by (rule inj_map_eq_map) (simp add: inj_def of_char_word_inj)


section \<open>Properties of the object-store key\<close>



section \<open>Properties of the validator\<close>

lemma primitive_String: "primitive (Some v) \<Longrightarrow> \<exists>s. js_String e v = Inr s"
  by (cases v) (simp_all add: primitive_def)

lemma primitive_or_default: "primitive a \<Longrightarrow> primitive (Some (or_default a (JStr d)))"
  by (auto simp: primitive_def or_default_def split: option.splits json.splits)

lemma primitive_or_else: "primitive a \<Longrightarrow> primitive b \<Longrightarrow> primitive (or_else a b)"
  by (auto simp: primitive_def or_else_def split: option.splits json.splits)

lemma primitive_body_candidate:
  assumes "primitive (get data (S ''body_text''))" "primitive (get data (S ''content''))"
    "primitive (get data (S ''body''))" "primitive (get data (S ''text''))"
  shows "primitive (Some (body_candidate data))"
  unfolding body_candidate_def
  by (intro primitive_or_default primitive_or_else assms)

lemma includes_or_member: "dflt \<in> set valid \<Longrightarrow> includes_or valid v dflt \<in> set valid"
  by (auto simp: includes_or_def split: option.splits json.splits)

lemma includes_or_default:
  "\<forall>s\<in>set valid. v \<noteq> Some (JStr s) \<Longrightarrow> includes_or valid v dflt = dflt"
  by (auto simp: includes_or_def split: option.splits json.splits)

lemma validateFeedback_fields:
  assumes "validateFeedback e data = Inr fb"
  shows "source fb = includes_or validSources (get data (S ''source'')) (S ''email'')"
    and "product_area fb = includes_or validProductAreas (get data (S ''product_area'')) (S ''other'')"
    and "sentiment fb = includes_or validSentiments (get data (S ''sentiment'')) (S ''neutral'')"
    and "urgency fb = includes_or validUrgencies (get data (S ''urgency'')) (S ''medium'')"
    and "js_String e (body_candidate data) = Inr (body_text fb)"
  using assms
  by (auto simp: validateFeedback_def split: if_splits sum.splits)

lemma validateFeedback_returns:
  assumes "data \<noteq> JNull"
    and "primitive (get data (S ''id''))" and "primitive (get data (S ''created_at''))"
    and "primitive (Some (body_candidate data))"
  shows "\<exists>fb. validateFeedback e data = Inr fb"
proof -
  obtain a where a: "js_String e (or_default (get data (S ''id'')) (JStr (randomUUID e))) = Inr a"
    using primitive_String [OF primitive_or_default [OF assms(2)]] by blast
  obtain b where b: "js_String e (or_default (get data (S ''created_at'')) (JStr (now_toISOString e))) = Inr b"
    using primitive_String [OF primitive_or_default [OF assms(3)]] by blast
  obtain c where c: "js_String e (body_candidate data) = Inr c"
    using primitive_String [OF assms(4)] by blast
  show ?thesis
    using assms(1) a b c by (simp add: validateFeedback_def)
qed

lemma defaults_valid:
  "S ''email'' \<in> set validSources" "S ''other'' \<in> set validProductAreas"
  "S ''neutral'' \<in> set validSentiments" "S ''medium'' \<in> set validUrgencies"
  by (simp_all add: validSources_def validProductAreas_def validSentiments_def validUrgencies_def)

text \<open>
  C1, as amended: whenever the validator returns a record, its \<open>source\<close>,
  \<open>product_area\<close>, \<open>sentiment\<close> and \<open>urgency\<close> are members of their closed sets, and
  a field that is missing or not in its closed set holds the default (\<open>email\<close>,
  \<open>other\<close>, \<open>neutral\<close>, \<open>medium\<close>); and the validator returns a record for every
  candidate other than null whose \<open>id\<close>, \<open>created_at\<close> and body fields are absent or
  primitive.
\<close>

theorem validateFeedback_closed_sets:
  "(\<forall>fb. validateFeedback e data = Inr fb \<longrightarrow>
      source fb \<in> set validSources \<and> product_area fb \<in> set validProductAreas \<and>
      sentiment fb \<in> set validSentiments \<and> urgency fb \<in> set validUrgencies \<and>
      ((\<forall>s\<in>set validSources. get data (S ''source'') \<noteq> Some (JStr s)) \<longrightarrow>
         source fb = S ''email'') \<and>
      ((\<forall>s\<in>set validProductAreas. get data (S ''product_area'') \<noteq> Some (JStr s)) \<longrightarrow>
         product_area fb = S ''other'') \<and>
      ((\<forall>s\<in>set validSentiments. get data (S ''sentiment'') \<noteq> Some (JStr s)) \<longrightarrow>
         sentiment fb = S ''neutral'') \<and>
      ((\<forall>s\<in>set validUrgencies. get data (S ''urgency'') \<noteq> Some (JStr s)) \<longrightarrow>
         urgency fb = S ''medium'')) \<and>
   (data \<noteq> JNull \<and> primitive (get data (S ''id'')) \<and> primitive (get data (S ''created_at'')) \<and>
    primitive (get data (S ''body_text'')) \<and> primitive (get data (S ''content'')) \<and>
    primitive (get data (S ''body'')) \<and> primitive (get data (S ''text'')) \<longrightarrow>
      (\<exists>fb. validateFeedback e data = Inr fb))"
proof (intro conjI allI impI)
  fix fb assume r: "validateFeedback e data = Inr fb"
  show "source fb \<in> set validSources"
    by (simp add: validateFeedback_fields(1) [OF r] includes_or_member defaults_valid)
  show "product_area fb \<in> set validProductAreas"
    by (simp add: validateFeedback_fields(2) [OF r] includes_or_member defaults_valid)
  show "sentiment fb \<in> set validSentiments"
    by (simp add: validateFeedback_fields(3) [OF r] includes_or_member defaults_valid)
  show "urgency fb \<in> set validUrgencies"
    by (simp add: validateFeedback_fields(4) [OF r] includes_or_member defaults_valid)
  show "source fb = S ''email''"
    if "\<forall>s\<in>set validSources. get data (S ''source'') \<noteq> Some (JStr s)"
    using that by (simp add: validateFeedback_fields(1) [OF r] includes_or_default)
  show "product_area fb = S ''other''"
    if "\<forall>s\<in>set validProductAreas. get data (S ''product_area'') \<noteq> Some (JStr s)"
    using that by (simp add: validateFeedback_fields(2) [OF r] includes_or_default)
  show "sentiment fb = S ''neutral''"
    if "\<forall>s\<in>set validSentiments. get data (S ''sentiment'') \<noteq> Some (JStr s)"
    using that by (simp add: validateFeedback_fields(3) [OF r] includes_or_default)
  show "urgency fb = S ''medium''"
    if "\<forall>s\<in>set validUrgencies. get data (S ''urgency'') \<noteq> Some (JStr s)"
    using that by (simp add: validateFeedback_fields(4) [OF r] includes_or_default)
next
  assume h: "data \<noteq> JNull \<and> primitive (get data (S ''id'')) \<and> primitive (get data (S ''created_at'')) \<and>
    primitive (get data (S ''body_text'')) \<and> primitive (get data (S ''content'')) \<and>
    primitive (get data (S ''body'')) \<and> primitive (get data (S ''text''))"
  then show "\<exists>fb. validateFeedback e data = Inr fb"
    by (intro validateFeedback_returns primitive_body_candidate) simp_all
qed


theorem validateFeedback_closed_sets_witness:
  "\<exists>fb. validateFeedback sample_env
          (JObj [(S ''source'', JStr (S ''github'')), (S ''urgency'', JStr (S ''urgent''))]) = Inr fb
        \<and> source fb \<in> set validSources \<and> urgency fb = S ''medium''"
proof -
  let ?d = "JObj [(S ''source'', JStr (S ''github'')), (S ''urgency'', JStr (S ''urgent''))]"
  have p: "?d \<noteq> JNull \<and> primitive (get ?d (S ''id'')) \<and> primitive (get ?d (S ''created_at'')) \<and>
    primitive (get ?d (S ''body_text'')) \<and> primitive (get ?d (S ''content'')) \<and>
    primitive (get ?d (S ''body'')) \<and> primitive (get ?d (S ''text''))"
    by (simp add: get_def primitive_def S_eq_iff)
  have u: "\<forall>s\<in>set validUrgencies. get ?d (S ''urgency'') \<noteq> Some (JStr s)"
    by (simp add: get_def S_eq_iff validUrgencies_def)
  from validateFeedback_closed_sets [of sample_env ?d] p
  obtain fb where r: "validateFeedback sample_env ?d = Inr fb"
    by blast
  with validateFeedback_closed_sets [of sample_env ?d] u
  have "source fb \<in> set validSources \<and> urgency fb = S ''medium''"
    by blast
  with r show ?thesis
    by blast
qed

text \<open>
  C1 as stated fails in its last part: the validator is not total. It throws a
  TypeError on null, and on an object whose \<open>id\<close> is an object with a property
  \<open>toString\<close> of its own.
\<close>

theorem validateFeedback_not_total:
  "validateFeedback sample_env JNull = Inl TypeError \<and>
   validateFeedback sample_env (JObj [(S ''id'', JObj [(S ''toString'', JNum (Finite 1))])])
     = Inl TypeError"
  by (simp add: validateFeedback_def get_def or_default_def)

lemma or_else_string:
  assumes "string_or_absent a"
  shows "or_else a b = (case string_or_undefined a of None \<Rightarrow> b | Some s \<Rightarrow> if s = [] then b else a)"
  using assms
  by (cases a; simp add: or_else_def string_or_absent_def string_or_undefined_def split: json.splits)

lemma or_default_string:
  assumes "string_or_absent a"
  shows "or_default a (JStr []) = JStr (case string_or_undefined a of None \<Rightarrow> [] | Some s \<Rightarrow> s)"
  using assms
  by (cases a; simp add: or_default_def string_or_absent_def string_or_undefined_def split: json.splits)

lemma string_or_absent_or_else:
  "string_or_absent a \<Longrightarrow> string_or_absent b \<Longrightarrow> string_or_absent (or_else a b)"
  by (cases a; simp add: or_else_def string_or_absent_def split: json.splits)

lemma body_candidate_strings:
  assumes "\<forall>k\<in>set body_fields. string_or_absent (get data k)"
  shows "body_candidate data =
    JStr (first_non_empty (List.map_filter (\<lambda>k. string_or_undefined (get data k)) body_fields))"
proof -
  have a: "string_or_absent (get data (S ''body_text''))" "string_or_absent (get data (S ''content''))"
    "string_or_absent (get data (S ''body''))" "string_or_absent (get data (S ''text''))"
    using assms by (simp_all add: body_fields_def)
  show ?thesis
    unfolding body_candidate_def
    by (simp add: or_default_string or_else_string a string_or_absent_or_else body_fields_def
        first_non_empty_def split: option.splits)
qed

lemma first_truthy_Cons: "first_truthy (a # vs) = or_default a (first_truthy vs)"
  by (cases a) (simp_all add: first_truthy_def or_default_def List.map_filter_simps)

lemma or_default_or_else: "or_default (or_else a b) d = or_default a (or_default b d)"
  by (cases a) (simp_all add: or_default_def or_else_def)

lemma body_candidate_first_truthy:
  "body_candidate data = first_truthy (map (get data) body_fields)"
  by (simp add: body_candidate_def body_fields_def first_truthy_Cons or_default_or_else)
    (simp add: first_truthy_def List.map_filter_simps)

lemma validateFeedback_body_text_strings:
  assumes "data \<noteq> JNull"
    and "primitive (get data (S ''id''))" and "primitive (get data (S ''created_at''))"
    and "\<forall>k\<in>set body_fields. string_or_absent (get data k)"
  shows "\<exists>fb. validateFeedback e data = Inr fb \<and>
     body_text fb =
       first_non_empty (List.map_filter (\<lambda>k. string_or_undefined (get data k)) body_fields) \<and>
     ((\<forall>k\<in>set body_fields. get data k = None) \<longrightarrow> body_text fb = [])"
proof -
  have c: "body_candidate data =
    JStr (first_non_empty (List.map_filter (\<lambda>k. string_or_undefined (get data k)) body_fields))"
    using assms(4) by (rule body_candidate_strings)
  then have "primitive (Some (body_candidate data))"
    by (simp add: primitive_def)
  then obtain fb where r: "validateFeedback e data = Inr fb"
    using validateFeedback_returns [OF assms(1-3)] by blast
  have b: "body_text fb =
      first_non_empty (List.map_filter (\<lambda>k. string_or_undefined (get data k)) body_fields)"
    using validateFeedback_fields(5) [OF r] c by simp
  moreover have "body_text fb = []" if "\<forall>k\<in>set body_fields. get data k = None"
    using that b
    by (simp add: body_fields_def string_or_undefined_def first_non_empty_def)
  ultimately show ?thesis
    using r by blast
qed

text \<open>
  C4, as amended: whenever the validator returns a record, \<open>body_text\<close> is \<open>String\<close> of
  the first truthy one of \<open>body_text\<close>, \<open>content\<close>, \<open>body\<close> and \<open>text\<close> in that order,
  and of the empty string when there is none. For a candidate other than null whose
  \<open>id\<close> and \<open>created_at\<close> are absent or primitive and whose four fields are strings or
  absent, the record is produced, \<open>body_text\<close> is the first non-empty one of the four,
  and the empty string when all are absent.
\<close>

theorem validateFeedback_body_text:
  "(\<forall>fb. validateFeedback e data = Inr fb \<longrightarrow>
      js_String e (first_truthy (map (get data) body_fields)) = Inr (body_text fb)) \<and>
   (data \<noteq> JNull \<and> primitive (get data (S ''id'')) \<and> primitive (get data (S ''created_at'')) \<and>
    (\<forall>k\<in>set body_fields. string_or_absent (get data k)) \<longrightarrow>
      (\<exists>fb. validateFeedback e data = Inr fb \<and>
         body_text fb =
           first_non_empty (List.map_filter (\<lambda>k. string_or_undefined (get data k)) body_fields) \<and>
         ((\<forall>k\<in>set body_fields. get data k = None) \<longrightarrow> body_text fb = [])))"
proof (intro conjI allI impI)
  fix fb assume "validateFeedback e data = Inr fb"
  then show "js_String e (first_truthy (map (get data) body_fields)) = Inr (body_text fb)"
    using validateFeedback_fields(5) [of e data fb] by (simp add: body_candidate_first_truthy)
next
  assume "data \<noteq> JNull \<and> primitive (get data (S ''id'')) \<and>
    primitive (get data (S ''created_at'')) \<and>
    (\<forall>k\<in>set body_fields. string_or_absent (get data k))"
  then show "\<exists>fb. validateFeedback e data = Inr fb \<and>
         body_text fb =
           first_non_empty (List.map_filter (\<lambda>k. string_or_undefined (get data k)) body_fields) \<and>
         ((\<forall>k\<in>set body_fields. get data k = None) \<longrightarrow> body_text fb = [])"
    using validateFeedback_body_text_strings [of data e] by blast
qed

theorem validateFeedback_body_text_witness:
  "\<exists>fb. validateFeedback sample_env
          (JObj [(S ''body_text'', JStr []), (S ''body'', JStr (S ''D1 is slow'')),
                 (S ''text'', JStr (S ''ignored''))]) = Inr fb
        \<and> body_text fb = S ''D1 is slow''"
proof -
  let ?d = "JObj [(S ''body_text'', JStr []), (S ''body'', JStr (S ''D1 is slow'')),
                 (S ''text'', JStr (S ''ignored''))]"
  have p: "?d \<noteq> JNull" "primitive (get ?d (S ''id''))" "primitive (get ?d (S ''created_at''))"
    "\<forall>k\<in>set body_fields. string_or_absent (get ?d k)"
    by (simp_all add: get_def primitive_def S_eq_iff body_fields_def string_or_absent_def)
  have v: "first_non_empty (List.map_filter (\<lambda>k. string_or_undefined (get ?d k)) body_fields)
      = S ''D1 is slow''"
    by (simp add: get_def S_eq_iff body_fields_def string_or_undefined_def first_non_empty_def
        S_def)
  show ?thesis
    using validateFeedback_body_text [of sample_env ?d] p v by auto
qed

text \<open>
  C4 as stated fails outside these candidates: an empty array is truthy and converts
  to the empty string, so a later non-empty field is not taken; a field that is an
  object with a property \<open>toString\<close> of its own makes the conversion throw; and with
  all four fields absent the record is still not produced when \<open>created_at\<close> is such
  an object.
\<close>

theorem validateFeedback_body_text_fails:
  "map_sum (\<lambda>err. err) body_text
     (validateFeedback sample_env
        (JObj [(S ''body_text'', JArr []), (S ''content'', JStr (S ''real text''))]))
     = Inr [] \<and>
   validateFeedback sample_env (JObj [(S ''content'', JObj [(S ''toString'', JNull)])])
     = Inl TypeError \<and>
   validateFeedback sample_env
     (JObj [(S ''created_at'', JObj [(S ''toString'', JNum (Finite 1))])])
     = Inl TypeError"
  by (simp add: validateFeedback_def get_def or_default_def or_else_def body_candidate_def
      S_eq_iff)

section \<open>Properties of the canonicalization engine\<close>

lemma trim_append_ws:
  assumes "\<forall>c\<in>set ws. is_ws c"
  shows "trim (x @ ws) = trim x"
proof (cases "\<forall>c\<in>set x. is_ws c")
  case True
  then have "\<forall>c\<in>set (x @ ws). is_ws c"
    using assms by auto
  then have a: "dropWhile is_ws (x @ ws) = []"
    by (metis dropWhile_eq_Nil_conv)
  have b: "dropWhile is_ws x = []"
    using True by (metis dropWhile_eq_Nil_conv)
  show ?thesis
    by (simp only: trim_def a b)
next
  case False
  then have "dropWhile is_ws (x @ ws) = dropWhile is_ws x @ ws"
    by (auto simp: dropWhile_append)
  moreover have "dropWhile is_ws (rev ws @ rev (dropWhile is_ws x))
      = dropWhile is_ws (rev (dropWhile is_ws x))"
    using assms by (intro dropWhile_append2) simp
  ultimately show ?thesis
    by (simp add: trim_def)
qed

lemma trim_ws_append:
  assumes "\<forall>c\<in>set ws. is_ws c"
  shows "trim (ws @ x) = trim x"
proof -
  have "dropWhile is_ws (ws @ x) = dropWhile is_ws x"
    using assms by (intro dropWhile_append2) simp
  then show ?thesis
    by (simp add: trim_def)
qed

lemma trim_fixed:
  assumes "x \<noteq> []" "\<not> is_ws (hd x)" "\<not> is_ws (last x)"
  shows "trim x = x"
proof -
  have "dropWhile is_ws x = x"
    using assms by (cases x) simp_all
  moreover have "dropWhile is_ws (rev x) = rev x"
    using assms by (cases "rev x") (simp_all add: hd_rev [symmetric])
  ultimately show ?thesis
    by (simp add: trim_def)
qed

lemma trim_fenced:
  assumes "\<forall>c\<in>set ws1. is_ws c" "\<forall>c\<in>set ws2. is_ws c"
  shows "trim (ws1 @ fenced tag inner @ ws2) = fenced tag inner"
proof -
  have "trim (fenced tag inner) = fenced tag inner"
    by (rule trim_fixed) (simp_all add: fenced_def S_def is_ws_def)
  then show ?thesis
    using assms by (simp add: trim_ws_append trim_append_ws)
qed

lemma trim_lines: "trim ([0x0A] @ inner @ [0x0A]) = trim inner"
  using trim_ws_append [of "[0x0A]" "inner @ [0x0A]"] trim_append_ws [of "[0x0A]" inner]
  by (simp add: is_ws_def)

lemma stripFence_fenced:
  assumes "tag = [] \<or> tag = S ''json''"
  shows "stripFence (fenced tag inner) = trim inner"
proof -
  let ?body = "[0x0A] @ inner @ [0x0A]"
  have t: "trim (fenced tag inner) = fenced tag inner"
    using trim_fenced [of "[]" "[]" tag inner] by simp
  have d: "(if startsWith (fenced tag inner) (S ''```json'') then drop 7 (fenced tag inner)
            else if startsWith (fenced tag inner) (S ''```'') then drop 3 (fenced tag inner)
            else fenced tag inner) = ?body @ S ''```''"
    using assms by (auto simp: fenced_def startsWith_def S_def)
  have e: "endsWith (?body @ S ''```'') (S ''```'')"
    by (simp add: endsWith_def S_def)
  have k: "take (length (?body @ S ''```'') - 3) (?body @ S ''```'') = ?body"
    by (simp add: S_def)
  show ?thesis
    unfolding stripFence_def Let_def t d using e k trim_lines [of inner] by simp
qed

lemma take4_tag:
  "take 4 (tag @ 0x0A # rest) = S ''json'' \<longleftrightarrow> take 4 tag = S ''json''"
proof (cases "4 \<le> length tag")
  case True
  then show ?thesis by simp
next
  case False
  then have l: "length tag < 4" by simp
  have "take 4 tag \<noteq> S ''json''"
  proof
    assume "take 4 tag = S ''json''"
    then have "length (take 4 tag) = length (S ''json'')" by simp
    with l show False by (simp add: S_def)
  qed
  moreover have "take 4 (tag @ 0x0A # rest) \<noteq> S ''json''"
  proof
    assume a: "take 4 (tag @ 0x0A # rest) = S ''json''"
    have "take 4 (tag @ 0x0A # rest) ! length tag = (tag @ 0x0A # rest) ! length tag"
      using l by (rule nth_take)
    also have "\<dots> = 0x0A"
      by (rule nth_append_length)
    finally have "S ''json'' ! length tag = 0x0A"
      using a by simp
    moreover have "length tag = 0 \<or> length tag = 1 \<or> length tag = 2 \<or> length tag = 3"
      using l by arith
    ultimately show False
      by (auto simp: S_def)
  qed
  ultimately show ?thesis by simp
qed

lemma startsWith_fenced_json:
  "startsWith (fenced tag inner) (S ''```json'') \<longleftrightarrow> startsWith tag (S ''json'')"
proof -
  let ?Y = "tag @ 0x0A # inner @ [0x0A] @ S ''```''"
  have f: "fenced tag inner = S ''```'' @ ?Y"
    by (simp add: fenced_def)
  have tk: "take 7 (S ''```'' @ ?Y) = S ''```'' @ take 4 ?Y"
    by (simp add: S_def)
  have j: "S ''```json'' = S ''```'' @ S ''json''" and len: "length (S ''```json'') = 7"
    and l4: "length (S ''json'') = 4"
    by (simp_all add: S_def)
  have "take (length (S ''```json'')) (fenced tag inner) = S ''```'' @ take 4 ?Y"
    by (simp only: len f tk)
  then have "startsWith (fenced tag inner) (S ''```json'')
      \<longleftrightarrow> S ''```'' @ take 4 ?Y = S ''```json''"
    by (simp only: startsWith_def)
  also have "\<dots> \<longleftrightarrow> S ''```'' @ take 4 ?Y = S ''```'' @ S ''json''"
    by (simp only: j)
  also have "\<dots> \<longleftrightarrow> take 4 ?Y = S ''json''"
    by simp
  also have "\<dots> \<longleftrightarrow> take 4 tag = S ''json''"
    by (rule take4_tag)
  also have "\<dots> \<longleftrightarrow> startsWith tag (S ''json'')"
    by (simp only: startsWith_def l4)
  finally show ?thesis .
qed

lemma stripFence_fenced_any:
  "stripFence (fenced tag inner) = trim (tag_rest tag @ [0x0A] @ inner @ [0x0A])"
proof -
  let ?body = "tag_rest tag @ [0x0A] @ inner @ [0x0A]"
  have t: "trim (fenced tag inner) = fenced tag inner"
    using trim_fenced [of "[]" "[]" tag inner] by simp
  have d: "(if startsWith (fenced tag inner) (S ''```json'') then drop 7 (fenced tag inner)
            else if startsWith (fenced tag inner) (S ''```'') then drop 3 (fenced tag inner)
            else fenced tag inner) = ?body @ S ''```''"
  proof (cases "startsWith tag (S ''json'')")
    case True
    then have "4 \<le> length tag"
      by (auto simp: startsWith_def S_def dest: arg_cong [where f = length])
    then have "drop 7 (fenced tag inner) = drop 4 tag @ [0x0A] @ inner @ [0x0A] @ S ''```''"
      by (simp add: fenced_def S_def)
    with True show ?thesis
      by (simp add: startsWith_fenced_json tag_rest_def)
  next
    case False
    moreover have "startsWith (fenced tag inner) (S ''```'')"
      by (simp add: startsWith_def fenced_def S_def)
    moreover have "drop 3 (fenced tag inner) = tag @ [0x0A] @ inner @ [0x0A] @ S ''```''"
      by (simp add: fenced_def S_def)
    ultimately show ?thesis
      by (simp add: startsWith_fenced_json tag_rest_def)
  qed
  have e: "endsWith (?body @ S ''```'') (S ''```'')"
    by (simp add: endsWith_def S_def)
  have k: "take (length (?body @ S ''```'') - 3) (?body @ S ''```'') = ?body"
    by (simp add: S_def)
  show ?thesis
    unfolding stripFence_def Let_def t d using e k by simp
qed

lemma stripFence_surrounded:
  assumes "\<forall>c\<in>set ws1. is_ws c" and "\<forall>c\<in>set ws2. is_ws c"
  shows "stripFence (ws1 @ x @ ws2) = stripFence x"
proof -
  have "trim (ws1 @ x @ ws2) = trim x"
    using assms by (simp add: trim_ws_append trim_append_ws)
  then show ?thesis
    by (simp add: stripFence_def)
qed

lemma normalizeFeedback_text:
  assumes "get response (S ''response'') = Some (JStr t)"
  shows "normalizeFeedback e response =
    (case JSON_parse e (stripFence t) of
       None \<Rightarrow> Inl SyntaxError
     | Some parsed \<Rightarrow> validateFeedback e parsed)"
  using assms
  by (auto simp: normalizeFeedback_def get_def split: json.splits option.splits
      dest: map_of_SomeD intro: rev_image_eqI)

text \<open>
  C3, as amended: for a response text that is a fenced block (the marker, a language
  tag, the inner text on lines of its own, the closing marker) with any white space
  around it, the text handed to \<open>JSON.parse\<close> is the trimmed remainder once the
  markers and a leading \<open>json\<close> of the tag are taken off: what is left of the tag, a
  line break and the inner text. For no tag and for the tag \<open>json\<close> this is the
  trimmed inner text, and \<open>normalizeFeedback\<close> is the validator's result on its parse
  (the SyntaxError when it does not parse).
\<close>

theorem normalizeFeedback_fenced:
  assumes "\<forall>c\<in>set ws1. is_ws c" and "\<forall>c\<in>set ws2. is_ws c"
    and "get response (S ''response'') = Some (JStr (ws1 @ fenced tag inner @ ws2))"
  shows "stripFence (ws1 @ fenced tag inner @ ws2) = trim (tag_rest tag @ [0x0A] @ inner @ [0x0A]) \<and>
    normalizeFeedback e response =
      (case JSON_parse e (trim (tag_rest tag @ [0x0A] @ inner @ [0x0A])) of
         None \<Rightarrow> Inl SyntaxError
       | Some parsed \<Rightarrow> validateFeedback e parsed) \<and>
    (tag = [] \<or> tag = S ''json'' \<longrightarrow>
       stripFence (ws1 @ fenced tag inner @ ws2) = trim inner \<and>
       normalizeFeedback e response =
         (case JSON_parse e (trim inner) of
            None \<Rightarrow> Inl SyntaxError
          | Some parsed \<Rightarrow> validateFeedback e parsed))"
proof -
  have s: "stripFence (ws1 @ fenced tag inner @ ws2) = trim (tag_rest tag @ [0x0A] @ inner @ [0x0A])"
    using stripFence_surrounded [OF assms(1,2)] stripFence_fenced_any by simp
  have n: "normalizeFeedback e response =
      (case JSON_parse e (trim (tag_rest tag @ [0x0A] @ inner @ [0x0A])) of
         None \<Rightarrow> Inl SyntaxError
       | Some parsed \<Rightarrow> validateFeedback e parsed)"
    using normalizeFeedback_text [OF assms(3)] s by simp
  have "trim (tag_rest tag @ [0x0A] @ inner @ [0x0A]) = trim inner"
    if "tag = [] \<or> tag = S ''json''"
  proof -
    have "tag_rest tag = []"
      using that by (auto simp: tag_rest_def startsWith_def S_def)
    then show ?thesis
      using trim_lines [of inner] by simp
  qed
  then show ?thesis
    using s n by simp
qed

theorem normalizeFeedback_fenced_witness:
  "normalizeFeedback sample_env
     (JObj [(S ''response'', JStr (S '' '' @ fenced (S ''json'') (S ''{}'') @ [0x0A]))])
   = validateFeedback sample_env (JObj []) \<and>
   stripFence (S '' '' @ fenced (S ''json'') (S ''{}'') @ [0x0A]) = S ''{}''"
proof -
  let ?r = "JObj [(S ''response'', JStr (S '' '' @ fenced (S ''json'') (S ''{}'') @ [0x0A]))]"
  have a: "\<forall>c\<in>set (S '' ''). is_ws c" "\<forall>c\<in>set [0x0A]. is_ws c"
    by (simp_all add: S_def is_ws_def)
  have b: "get ?r (S ''response'') = Some (JStr (S '' '' @ fenced (S ''json'') (S ''{}'') @ [0x0A]))"
    by (simp add: get_def)
  have t: "trim (S ''{}'') = S ''{}''"
    by (simp add: trim_def S_def is_ws_def)
  have p: "JSON_parse sample_env (S ''{}'') = Some (JObj [])"
    by (simp add: sample_env_def)
  have "S ''json'' = [] \<or> S ''json'' = S ''json''"
    by simp
  with normalizeFeedback_fenced [OF a b, of sample_env]
  have "stripFence (S '' '' @ fenced (S ''json'') (S ''{}'') @ [0x0A]) = trim (S ''{}'') \<and>
      normalizeFeedback sample_env ?r =
        (case JSON_parse sample_env (trim (S ''{}'')) of
           None \<Rightarrow> Inl SyntaxError
         | Some parsed \<Rightarrow> validateFeedback sample_env parsed)"
    by blast
  then show ?thesis
    by (simp add: t p)
qed

text \<open>
  C3 as stated fails for other language tags: a block tagged \<open>js\<close> keeps the tag, a
  block tagged \<open>json5\<close> keeps the \<open>5\<close>, and the text handed to the parser is not the
  inner text.
\<close>

theorem stripFence_other_tag:
  "stripFence (fenced (S ''js'') (S ''{}'')) = S ''js'' @ [0x0A] @ S ''{}'' \<and>
   stripFence (fenced (S ''js'') (S ''{}'')) \<noteq> trim (S ''{}'') \<and>
   stripFence (fenced (S ''json5'') (S ''{}'')) = S ''5'' @ [0x0A] @ S ''{}'' \<and>
   stripFence (fenced (S ''json5'') (S ''{}'')) \<noteq> trim (S ''{}'')"
  by (simp add: stripFence_def fenced_def S_def trim_def is_ws_def startsWith_def endsWith_def)

text \<open>
  C2: when the fence-stripped text of the response cannot be parsed,
  \<open>normalizeFeedback\<close> fails with the SyntaxError; and whenever it returns a record,
  the text was parsed and the record is the validator's result on the parsed value.
\<close>

theorem normalizeFeedback_parse_failure:
  "(get response (S ''response'') = Some (JStr text') \<and> JSON_parse e (stripFence text') = None
      \<longrightarrow> normalizeFeedback e response = Inl SyntaxError) \<and>
   (normalizeFeedback e response = Inr fb \<longrightarrow>
      (\<exists>t parsed. get response (S ''response'') = Some (JStr t) \<and>
         JSON_parse e (stripFence t) = Some parsed \<and> validateFeedback e parsed = Inr fb))"
  by (auto simp: normalizeFeedback_def get_def split: json.splits option.splits if_splits
      dest: map_of_SomeD intro: rev_image_eqI)

theorem normalizeFeedback_parse_failure_witness:
  "normalizeFeedback sample_env (JObj [(S ''response'', JStr (S ''Sorry, no JSON''))])
     = Inl SyntaxError \<and>
   (\<exists>t parsed fb.
      get (JObj [(S ''response'', JStr (fenced (S ''json'') (S ''{}'')))]) (S ''response'')
        = Some (JStr t) \<and>
      JSON_parse sample_env (stripFence t) = Some parsed \<and>
      validateFeedback sample_env parsed = Inr fb)"
proof -
  let ?r1 = "JObj [(S ''response'', JStr (S ''Sorry, no JSON''))]"
  let ?r2 = "JObj [(S ''response'', JStr (fenced (S ''json'') (S ''{}'')))]"
  have s1: "stripFence (S ''Sorry, no JSON'') = S ''Sorry, no JSON''"
    by (simp add: stripFence_def S_def trim_def is_ws_def startsWith_def endsWith_def)
  have "get ?r1 (S ''response'') = Some (JStr (S ''Sorry, no JSON'')) \<and>
      JSON_parse sample_env (stripFence (S ''Sorry, no JSON'')) = None"
    unfolding s1 by (simp add: get_def sample_env_def S_eq_iff)
  then have a: "normalizeFeedback sample_env ?r1 = Inl SyntaxError"
    using normalizeFeedback_parse_failure [of ?r1 "S ''Sorry, no JSON''" sample_env] by blast
  have s2: "stripFence (fenced (S ''json'') (S ''{}'')) = S ''{}''"
    using stripFence_fenced [of "S ''json''" "S ''{}''"]
    by (simp add: trim_def S_def is_ws_def)
  have "\<exists>fb. normalizeFeedback sample_env ?r2 = Inr fb"
    by (simp add: normalizeFeedback_def s2 sample_env_def validateFeedback_def get_def
        or_default_def body_candidate_def or_else_def)
  then obtain fb where "normalizeFeedback sample_env ?r2 = Inr fb"
    by blast
  then have "\<exists>t parsed. get ?r2 (S ''response'') = Some (JStr t) \<and>
      JSON_parse sample_env (stripFence t) = Some parsed \<and>
      validateFeedback sample_env parsed = Inr fb"
    using normalizeFeedback_parse_failure [of ?r2 _ sample_env fb] by blast
  with a show ?thesis
    by blast
qed

section \<open>Properties of the row conversions\<close>

lemma JSON_document_tags: "JSON_document (tags_value ts) = tags_value ts"
  by (simp add: tags_value_def)

lemma string_elements_tags: "string_elements (Some (tags_value ts)) = ts"
  by (induction ts) (simp_all add: string_elements_def tags_value_def List.map_filter_simps)

lemma is_finite_cases: "is_finite n \<longleftrightarrow> n = None \<or> (\<exists>r. n = Some (Finite r))"
  by (auto simp: is_finite_def split: option.splits jsnumber.splits)

lemma JSON_document_confidence:
  assumes "is_finite (c_product_area c)" "is_finite (c_sentiment c)" "is_finite (c_urgency c)"
  shows "JSON_document (confidence_value c) = confidence_value c"
  using assms unfolding is_finite_cases confidence_value_def
  by (elim disjE exE) (simp_all add: List.map_filter_simps)

lemma confidence_of_value: "confidence_of (Some (confidence_value c)) = Some c"
proof (cases c)
  case (fields a b d)
  show ?thesis
    unfolding fields
    by (cases a; cases b; cases d)
      (simp_all add: confidence_of_def confidence_value_def get_def number_or_undefined_def
        S_eq_iff List.map_filter_simps)
qed

lemma confidence_of_None: "confidence_of None = None"
  by (simp add: confidence_of_def)

text \<open>
  C7, as amended: for a Feedback with non-empty tags whose confidence sub-scores, where
  present, are finite numbers, \<open>rowToFeedback (feedbackToRow f k)\<close> holds the original
  tags and the original confidence content: the parsed values are those of \<open>f\<close>, and
  reading them as the validator does gives \<open>tags f\<close> and \<open>confidence f\<close> again.
\<close>

theorem row_round_trip:
  assumes "tags f \<noteq> []" and "finite_confidence (confidence f)"
  shows "of_row_tags (rowToFeedback (feedbackToRow f k)) = tags_value (tags f) \<and>
    string_elements (Some (of_row_tags (rowToFeedback (feedbackToRow f k)))) = tags f \<and>
    of_row_confidence (rowToFeedback (feedbackToRow f k)) = map_option confidence_value (confidence f) \<and>
    confidence_of (of_row_confidence (rowToFeedback (feedbackToRow f k))) = confidence f"
proof -
  have t: "of_row_tags (rowToFeedback (feedbackToRow f k)) = tags_value (tags f)"
    using assms(1) by (simp add: rowToFeedback_def feedbackToRow_def JSON_stringify_def JSON_document_tags)
  have c: "of_row_confidence (rowToFeedback (feedbackToRow f k)) = map_option confidence_value (confidence f)"
    using assms(2)
    by (cases "confidence f")
      (simp_all add: rowToFeedback_def feedbackToRow_def JSON_stringify_def finite_confidence_def
        JSON_document_confidence)
  have "confidence_of (map_option confidence_value (confidence f)) = confidence f"
    by (cases "confidence f") (simp_all add: confidence_of_value confidence_of_None)
  then show ?thesis
    using t c by (simp add: string_elements_tags)
qed

theorem row_round_trip_witness:
  "of_row_tags (rowToFeedback (feedbackToRow sample_feedback (S ''k''))) =
     JArr [JStr (S ''bug''), JStr (S ''performance'')] \<and>
   confidence_of (of_row_confidence (rowToFeedback (feedbackToRow sample_feedback (S ''k'')))) =
     Some \<lparr>c_product_area = Some (Finite (9 / 10)), c_sentiment = None,
           c_urgency = Some (Finite (1 / 2))\<rparr>"
proof -
  have "tags sample_feedback \<noteq> []" and "finite_confidence (confidence sample_feedback)"
    by (simp_all add: sample_feedback_def finite_confidence_def is_finite_def)
  from row_round_trip [OF this, of "S ''k''"] show ?thesis
    by (simp add: sample_feedback_def tags_value_def confidence_of_value)
qed

text \<open>
  C7 as stated fails for a sub-score that is not finite: it is written as \<open>null\<close>,
  and is read back as no number.
\<close>

theorem row_round_trip_not_finite:
  "of_row_confidence (rowToFeedback (feedbackToRow
      (sample_feedback\<lparr>confidence := Some \<lparr>c_product_area = Some PosInfinity,
         c_sentiment = None, c_urgency = None\<rparr>\<rparr>) (S ''k'')))
     = Some (JObj [(S ''product_area'', JNull)]) \<and>
   confidence_of (of_row_confidence (rowToFeedback (feedbackToRow
      (sample_feedback\<lparr>confidence := Some \<lparr>c_product_area = Some PosInfinity,
         c_sentiment = None, c_urgency = None\<rparr>\<rparr>) (S ''k''))))
     \<noteq> Some \<lparr>c_product_area = Some PosInfinity, c_sentiment = None, c_urgency = None\<rparr>"
  by (simp add: rowToFeedback_def feedbackToRow_def sample_feedback_def JSON_stringify_def
      confidence_value_def List.map_filter_simps confidence_of_def get_def number_or_undefined_def)

section \<open>Properties of the renderings\<close>

lemma length_S: "length (S s) = length s"
  by (simp add: S_def)

lemma truncateForDiscord_length: "length (truncateForDiscord content) \<le> 1900"
  by (simp add: truncateForDiscord_def substring0_def length_S)

lemma truncateForDiscord_ellipsis:
  "truncateForDiscord content \<noteq> content \<Longrightarrow> endsWith (truncateForDiscord content) (S ''...'')"
  by (simp add: truncateForDiscord_def endsWith_def length_S substring0_def split: if_splits)

lemma truncateForDiscord_changed:
  "truncateForDiscord content \<noteq> content \<longleftrightarrow> length content > 1900"
proof
  assume "length content > 1900"
  then have "length (truncateForDiscord content) \<noteq> length content"
    by (simp add: truncateForDiscord_def substring0_def length_S)
  then show "truncateForDiscord content \<noteq> content"
    by metis
qed (simp add: truncateForDiscord_def split: if_splits)

text \<open>
  C8: the rendering of \<open>summarizeForDiscord\<close> (ask) and of the digest never exceeds
  2000 code units (both stay within 1900), and a rendering that was truncated ends with
  the ellipsis \<open>...\<close>. What the two continuations send to the platform, the fixed
  error message of the digest included, stays within the same bound.
\<close>

theorem discord_rendering_bounded:
  "length (summarizeForDiscord searchResult) \<le> 2000 \<and>
   length (digestContent date totalCount stats highUrgency searchResult) \<le> 2000 \<and>
   (summarizeForDiscord searchResult \<noteq> summary_content searchResult \<longrightarrow>
      endsWith (summarizeForDiscord searchResult) (S ''...'')) \<and>
   (digestContent date totalCount stats highUrgency searchResult
      \<noteq> digest_untruncated date totalCount stats highUrgency searchResult \<longrightarrow>
      endsWith (digestContent date totalCount stats highUrgency searchResult) (S ''...'')) \<and>
   length (ask_task_content e query) \<le> 2000 \<and>
   length (digest_task_content date aggregates searchResult) \<le> 2000"
proof -
  have "length (ask_task_content e query) \<le> 1900"
    unfolding ask_task_content_def summarizeForDiscord_def by (rule truncateForDiscord_length)
  moreover have "length (digest_task_content date aggregates searchResult) \<le> 1900"
  proof (cases aggregates)
    case (Inl err)
    then show ?thesis
      by (simp add: digest_task_content_def length_S)
  next
    case (Inr r)
    obtain st n hu where "r = (st, n, hu)"
      by (cases r)
    with Inr show ?thesis
      using truncateForDiscord_length [of "digest_untruncated date n st hu searchResult"]
      by (simp add: digest_task_content_def digestContent_def)
  qed
  moreover have "length (summarizeForDiscord searchResult) \<le> 1900"
    unfolding summarizeForDiscord_def by (rule truncateForDiscord_length)
  moreover have "length (digestContent date totalCount stats highUrgency searchResult) \<le> 1900"
    unfolding digestContent_def by (rule truncateForDiscord_length)
  ultimately show ?thesis
    unfolding summarizeForDiscord_def digestContent_def
    using truncateForDiscord_ellipsis by auto
qed

theorem discord_rendering_bounded_witness:
  "summarizeForDiscord \<lparr>answer = replicate 2000 (of_char CHR ''a''), citations = [], raw = None\<rparr>
     \<noteq> summary_content \<lparr>answer = replicate 2000 (of_char CHR ''a''), citations = [], raw = None\<rparr> \<and>
   endsWith (summarizeForDiscord
     \<lparr>answer = replicate 2000 (of_char CHR ''a''), citations = [], raw = None\<rparr>) (S ''...'') \<and>
   digestContent (replicate 2000 (of_char CHR ''0'')) 0 [] []
       \<lparr>answer = [], citations = [], raw = None\<rparr>
     \<noteq> digest_untruncated (replicate 2000 (of_char CHR ''0'')) 0 [] []
       \<lparr>answer = [], citations = [], raw = None\<rparr> \<and>
   endsWith (digestContent (replicate 2000 (of_char CHR ''0'')) 0 [] []
       \<lparr>answer = [], citations = [], raw = None\<rparr>) (S ''...'')"
proof -
  let ?sr = "\<lparr>answer = replicate 2000 (of_char CHR ''a''), citations = [], raw = None\<rparr>"
  let ?e = "\<lparr>answer = [], citations = [], raw = None\<rparr> :: SearchResult"
  let ?d = "replicate 2000 (of_char CHR ''0'') :: jsstring"
  have a: "summarizeForDiscord ?sr \<noteq> summary_content ?sr"
    unfolding summarizeForDiscord_def truncateForDiscord_changed
    by (simp add: summary_content_def)
  have b: "digestContent ?d 0 [] [] ?e \<noteq> digest_untruncated ?d 0 [] [] ?e"
    unfolding digestContent_def truncateForDiscord_changed
    by (simp add: digest_untruncated_def digest_header_def length_S)
  show ?thesis
    using a b discord_rendering_bounded [of ?sr ?d 0 "[]" "[]" sample_env "[]" "Inl TypeError"]
      discord_rendering_bounded [of ?e ?d 0 "[]" "[]" sample_env "[]" "Inl TypeError"]
    by blast
qed

text \<open>
  C5: when the total count is zero, the digest of the chat command is its header line
  followed by the single line \<open>No feedback recorded for this date.\<close>, whatever the
  aggregates and the search result are (the composition is not run); the truncation
  of every rendering leaves it whole for a date of at most 1836 code units.
\<close>

theorem digest_no_feedback:
  "digestContent date 0 stats highUrgency searchResult =
     truncateForDiscord (digest_header date @ S ''No feedback recorded for this date.'') \<and>
   (length date \<le> 1836 \<longrightarrow>
      digestContent date 0 stats highUrgency searchResult =
        digest_header date @ S ''No feedback recorded for this date.'')"
  by (simp add: digestContent_def digest_untruncated_def truncateForDiscord_def digest_header_def
      length_S)

theorem digest_no_feedback_witness:
  "digestContent (S ''2026-01-09'') 0
     [\<lparr>stat_source = S ''discord'', stat_product_area = S ''d1'',
       stat_sentiment = S ''negative'', stat_count = 2\<rparr>]
     [\<lparr>item_body_text = S ''D1 is down'', item_source_url = None\<rparr>]
     \<lparr>answer = S ''Themes'', citations = [], raw = None\<rparr>
   = S ''**'' @ [0xD83D, 0xDCCA] @ S '' Feedback Digest for 2026-01-09**'' @ [0x0A, 0x0A]
     @ S ''No feedback recorded for this date.''"
proof -
  let ?stats = "[\<lparr>stat_source = S ''discord'', stat_product_area = S ''d1'',
       stat_sentiment = S ''negative'', stat_count = 2\<rparr>]"
  let ?urgent = "[\<lparr>item_body_text = S ''D1 is down'', item_source_url = None\<rparr>]"
  let ?sr = "\<lparr>answer = S ''Themes'', citations = [], raw = None\<rparr>"
  have "length (S ''2026-01-09'') \<le> 1836"
    by (simp add: length_S)
  with digest_no_feedback [of "S ''2026-01-09''" ?stats ?urgent ?sr]
  have "digestContent (S ''2026-01-09'') 0 ?stats ?urgent ?sr =
      digest_header (S ''2026-01-09'') @ S ''No feedback recorded for this date.''"
    by blast
  then show ?thesis
    by (simp add: digest_header_def S_def)
qed

section \<open>Properties of the handlers\<close>

lemma getStringOption_absent:
  assumes "S ''query'' \<notin> opt_name ` set (options_of interaction)"
  shows "getStringOption e interaction (S ''query'') = Inr None"
proof -
  have "List.find (\<lambda>opt. opt_name opt = S ''query'') (options_of interaction) = None"
    using assms by (force simp: find_None_iff)
  then show ?thesis
    by (simp add: getStringOption_def)
qed

lemma getStringOption_string:
  assumes "List.find (\<lambda>opt. opt_name opt = name) (options_of interaction) = Some opt"
    and "opt_value opt = Some (JStr q)"
  shows "getStringOption e interaction name = Inr (Some q)"
  using assms by (simp add: getStringOption_def)

lemma getStringOption_no_value:
  assumes "List.find (\<lambda>opt. opt_name opt = name) (options_of interaction) = Some opt"
    and "opt_value opt = None"
  shows "getStringOption e interaction name = Inr None"
  using assms by (simp add: getStringOption_def)

text \<open>
  C6: when the interaction has no option named \<open>query\<close> (or the option has no value),
  \<open>handleAskCommand\<close> answers with the validation message as an ephemeral message
  (response type 4, flags 64) and registers no continuation; when the option holds a
  non-empty string, it answers with the deferred acknowledgment (response type 5, no
  data) and registers exactly one continuation, for that query.
\<close>

theorem handleAskCommand_paths:
  "(S ''query'' \<notin> opt_name ` set (options_of interaction) \<longrightarrow>
      handleAskCommand e interaction ctx = Inr (\<lparr>response_type = 4,
              response_data = Some \<lparr>data_content = Some (S ''Please provide a query using the `query` option.''),
                                     data_flags = Some 64\<rparr>\<rparr>, ctx)) \<and>
   (List.find (\<lambda>opt. opt_name opt = S ''query'') (options_of interaction) = Some opt \<and>
    opt_value opt = None \<longrightarrow>
      handleAskCommand e interaction ctx = Inr (\<lparr>response_type = 4,
              response_data = Some \<lparr>data_content = Some (S ''Please provide a query using the `query` option.''),
                                     data_flags = Some 64\<rparr>\<rparr>, ctx)) \<and>
   (List.find (\<lambda>opt. opt_name opt = S ''query'') (options_of interaction) = Some opt \<and>
    opt_value opt = Some (JStr q) \<and> q \<noteq> [] \<longrightarrow>
      handleAskCommand e interaction ctx =
        Inr (\<lparr>response_type = 5, response_data = None\<rparr>,
             ctx @ [AskTask (application_id interaction) (interaction_token interaction) q]))"
proof (intro conjI impI)
  assume "S ''query'' \<notin> opt_name ` set (options_of interaction)"
  then show "handleAskCommand e interaction ctx = Inr (\<lparr>response_type = 4,
              response_data = Some \<lparr>data_content = Some (S ''Please provide a query using the `query` option.''),
                                     data_flags = Some 64\<rparr>\<rparr>, ctx)"
    by (simp add: handleAskCommand_def getStringOption_absent createEphemeralResponse_def)
next
  assume "List.find (\<lambda>opt. opt_name opt = S ''query'') (options_of interaction) = Some opt \<and>
    opt_value opt = None"
  then show "handleAskCommand e interaction ctx = Inr (\<lparr>response_type = 4,
              response_data = Some \<lparr>data_content = Some (S ''Please provide a query using the `query` option.''),
                                     data_flags = Some 64\<rparr>\<rparr>, ctx)"
    by (simp add: handleAskCommand_def getStringOption_no_value createEphemeralResponse_def)
next
  assume "List.find (\<lambda>opt. opt_name opt = S ''query'') (options_of interaction) = Some opt \<and>
    opt_value opt = Some (JStr q) \<and> q \<noteq> []"
  then show "handleAskCommand e interaction ctx =
        Inr (\<lparr>response_type = 5, response_data = None\<rparr>,
             ctx @ [AskTask (application_id interaction) (interaction_token interaction) q])"
    by (simp add: handleAskCommand_def getStringOption_string createDeferredResponse_def)
qed

theorem handleAskCommand_paths_witness:
  "handleAskCommand sample_env (sample_interaction []) [] = Inr (\<lparr>response_type = 4,
              response_data = Some \<lparr>data_content = Some (S ''Please provide a query using the `query` option.''),
                                     data_flags = Some 64\<rparr>\<rparr>, []) \<and>
   handleAskCommand sample_env
     (sample_interaction [\<lparr>opt_name = S ''query'', opt_type = 3, opt_value = None\<rparr>]) [] =
     Inr (\<lparr>response_type = 4,
              response_data = Some \<lparr>data_content = Some (S ''Please provide a query using the `query` option.''),
                                     data_flags = Some 64\<rparr>\<rparr>, []) \<and>
   handleAskCommand sample_env
     (sample_interaction
        [\<lparr>opt_name = S ''query'', opt_type = 3, opt_value = Some (JStr (S ''D1 performance?''))\<rparr>])
     [] =
     Inr (\<lparr>response_type = 5, response_data = None\<rparr>,
          [AskTask (S ''test-app-id'') (S ''test-token'') (S ''D1 performance?'')])"
proof -
  let ?o1 = "\<lparr>opt_name = S ''query'', opt_type = 3, opt_value = None\<rparr>"
  let ?o2 = "\<lparr>opt_name = S ''query'', opt_type = 3, opt_value = Some (JStr (S ''D1 performance?''))\<rparr>"
  have a: "S ''query'' \<notin> opt_name ` set (options_of (sample_interaction []))"
    by (simp add: options_of_def sample_interaction_def)
  have b: "List.find (\<lambda>opt. opt_name opt = S ''query'') (options_of (sample_interaction [?o1]))
      = Some ?o1 \<and> opt_value ?o1 = None"
    by (simp add: options_of_def sample_interaction_def)
  have c: "List.find (\<lambda>opt. opt_name opt = S ''query'') (options_of (sample_interaction [?o2]))
      = Some ?o2 \<and> opt_value ?o2 = Some (JStr (S ''D1 performance?'')) \<and> S ''D1 performance?'' \<noteq> []"
    by (simp add: options_of_def sample_interaction_def S_def)
  have "handleAskCommand sample_env (sample_interaction []) [] = Inr (\<lparr>response_type = 4,
              response_data = Some \<lparr>data_content = Some (S ''Please provide a query using the `query` option.''),
                                     data_flags = Some 64\<rparr>\<rparr>, [])"
    using handleAskCommand_paths [of "sample_interaction []" sample_env "[]"] a by blast
  moreover have "handleAskCommand sample_env (sample_interaction [?o1]) [] = Inr (\<lparr>response_type = 4,
              response_data = Some \<lparr>data_content = Some (S ''Please provide a query using the `query` option.''),
                                     data_flags = Some 64\<rparr>\<rparr>, [])"
    using handleAskCommand_paths [of "sample_interaction [?o1]" sample_env "[]" ?o1] b by blast
  moreover have "handleAskCommand sample_env (sample_interaction [?o2]) [] =
     Inr (\<lparr>response_type = 5, response_data = None\<rparr>,
          [] @ [AskTask (application_id (sample_interaction [?o2]))
             (interaction_token (sample_interaction [?o2])) (S ''D1 performance?'')])"
    using handleAskCommand_paths [of "sample_interaction [?o2]" sample_env "[]" ?o2 "S ''D1 performance?''"] c
    by blast
  ultimately show ?thesis
    by (simp add: sample_interaction_def)
qed

text \<open>
  C10: a query that is the empty string is treated as a missing one: \<open>POST /ask\<close> with
  such a body answers 400 as it does for the body \<open>{}\<close>, and the ask command answers
  with the ephemeral validation message and registers no continuation, as it does
  for an interaction without options.
\<close>

theorem empty_query_is_missing:
  "(get body (S ''query'') = Some (JStr []) \<longrightarrow>
      handleAsk e body =
        Inr \<lparr>http_status = 400,
             http_body = JObj [(S ''error'', JStr (S ''Missing required field: query''))]\<rparr> \<and>
      handleAsk e body = handleAsk e (JObj [])) \<and>
   (List.find (\<lambda>opt. opt_name opt = S ''query'') (options_of interaction) = Some opt \<and>
    opt_value opt = Some (JStr []) \<longrightarrow>
      handleAskCommand e interaction ctx =
        Inr (createEphemeralResponse (S ''Please provide a query using the `query` option.''),
             ctx) \<and>
      handleAskCommand e interaction ctx =
        handleAskCommand e
          (interaction\<lparr>interaction_data := None\<rparr>) ctx)"
proof (intro conjI impI)
  assume h: "get body (S ''query'') = Some (JStr [])"
  then have "body \<noteq> JNull"
    by (auto simp: get_def)
  with h show "handleAsk e body =
        Inr \<lparr>http_status = 400,
             http_body = JObj [(S ''error'', JStr (S ''Missing required field: query''))]\<rparr>"
    by (simp add: handleAsk_def)
  then show "handleAsk e body = handleAsk e (JObj [])"
    by (simp add: handleAsk_def get_def)
next
  assume h: "List.find (\<lambda>opt. opt_name opt = S ''query'') (options_of interaction) = Some opt \<and>
    opt_value opt = Some (JStr [])"
  then show r: "handleAskCommand e interaction ctx =
        Inr (createEphemeralResponse (S ''Please provide a query using the `query` option.''),
             ctx)"
    by (simp add: handleAskCommand_def getStringOption_string)
  show "handleAskCommand e interaction ctx =
        handleAskCommand e (interaction\<lparr>interaction_data := None\<rparr>) ctx"
    unfolding r by (simp add: handleAskCommand_def getStringOption_def options_of_def)
qed

theorem empty_query_is_missing_witness:
  "handleAsk sample_env (JObj [(S ''query'', JStr [])]) =
     Inr \<lparr>http_status = 400,
          http_body = JObj [(S ''error'', JStr (S ''Missing required field: query''))]\<rparr> \<and>
   handleAskCommand sample_env
     (sample_interaction [\<lparr>opt_name = S ''query'', opt_type = 3, opt_value = Some (JStr [])\<rparr>])
     [] =
     Inr (createEphemeralResponse (S ''Please provide a query using the `query` option.''), [])"
proof -
  let ?b = "JObj [(S ''query'', JStr [])]"
  let ?o = "\<lparr>opt_name = S ''query'', opt_type = 3, opt_value = Some (JStr [])\<rparr>"
  have a: "get ?b (S ''query'') = Some (JStr [])"
    by (simp add: get_def)
  have b: "List.find (\<lambda>opt. opt_name opt = S ''query'') (options_of (sample_interaction [?o]))
      = Some ?o \<and> opt_value ?o = Some (JStr [])"
    by (simp add: options_of_def sample_interaction_def)
  show ?thesis
    using empty_query_is_missing [of ?b sample_env "sample_interaction [?o]" ?o "[]"] a b
    by blast
qed

end
